theory Spec2Isabelle
  imports Main "HOL-Library.AList"
begin

section \<open>JavaScript values read and built by the handlers of server.js\<close>

text \<open>
  A request body arrives through \<^verbatim>\<open>express.json()\<close>, so it is a parsed JSON value. The
  handlers build further values from it: the id of a stored document and its date. An
  object is the list of its own properties in their order; \<^verbatim>\<open>JSON.parse\<close> keeps one
  entry per key. Numbers are the safe integers, of magnitude below \<open>2 ^ 53\<close>, which
  JavaScript holds exactly and writes out in plain digits: the only number a handler
  computes is a \<^verbatim>\<open>length\<close>.
\<close>

datatype jsval =
    JUndefined
  | JNull
  | JBool bool
  | JNum int
  | JStr string
  | JArr "jsval list"
  | JObj "(string \<times> jsval) list"
  | JObjectId nat
  | JDate nat

datatype js_error = TypeError | CastError | ConnectError | StoreError | BrokerError

text \<open>
  Reading \<^verbatim>\<open>v.k\<close>. On \<^verbatim>\<open>undefined\<close> and \<^verbatim>\<open>null\<close> the read throws a TypeError. The
  handlers read the names event, data, type, length, team, evaluator, evaluation, ratings
  and feedback only: none of them is an array index or a property inherited from a
  prototype, so an object answers with its own property or \<^verbatim>\<open>undefined\<close>, and arrays and
  strings answer to \<^verbatim>\<open>length\<close> alone.
\<close>

fun get_prop :: "jsval \<Rightarrow> string \<Rightarrow> js_error + jsval" where
  "get_prop JUndefined k = Inl TypeError"
| "get_prop JNull k = Inl TypeError"
| "get_prop (JObj ps) k = Inr (case map_of ps k of Some v \<Rightarrow> v | None \<Rightarrow> JUndefined)"
| "get_prop (JArr xs) k = Inr (if k = ''length'' then JNum (int (length xs)) else JUndefined)"
| "get_prop (JStr s) k = Inr (if k = ''length'' then JNum (int (length s)) else JUndefined)"
| "get_prop v k = Inr JUndefined"

text \<open>
  The own properties an object spread \<^verbatim>\<open>{...v}\<close> copies. The upload handler spreads
  \<^verbatim>\<open>data\<close> after it has read \<^verbatim>\<open>data.evaluation.ratings\<close>, which only an object survives
  (lemma \<open>get_prop_nested_is_object\<close> below), so the index keys that an array or a string
  would contribute never arise.
\<close>

fun own_props :: "jsval \<Rightarrow> (string \<times> jsval) list" where
  "own_props (JObj ps) = ps"
| "own_props v = []"

section \<open>The Evaluation model and the Mongoose connection\<close>

text \<open>
  A path of schema type String holds a string, \<^verbatim>\<open>null\<close>, or nothing at all.
\<close>

datatype strfield = Absent | IsNull | Text string

definition digit_char :: "nat \<Rightarrow> char" where
  "digit_char d = ''0123456789'' ! d"

fun string_of_nat :: "nat \<Rightarrow> string" where
  "string_of_nat n =
     (if n < 10 then [digit_char n] else string_of_nat (n div 10) @ [digit_char (n mod 10)])"

definition string_of_int :: "int \<Rightarrow> string" where
  "string_of_int i =
     (if i < 0 then CHR ''-'' # string_of_nat (nat (- i)) else string_of_nat (nat i))"

text \<open>
  Mongoose's cast of a value to a String path, which \<^verbatim>\<open>Evaluation.create\<close> and the filter
  of \<^verbatim>\<open>Evaluation.find\<close> apply: \<^verbatim>\<open>null\<close> and \<^verbatim>\<open>undefined\<close> pass, a string is kept, a
  boolean or a number is written out, an object with a non-empty string \<^verbatim>\<open>_id\<close> gives
  that id, and arrays and other plain objects are refused. Ids and dates do not occur in a
  parsed request body.
\<close>

fun castString :: "jsval \<Rightarrow> js_error + strfield" where
  "castString JUndefined = Inr Absent"
| "castString JNull = Inr IsNull"
| "castString (JStr s) = Inr (Text s)"
| "castString (JBool b) = Inr (Text (if b then ''true'' else ''false''))"
| "castString (JNum n) = Inr (Text (string_of_int n))"
| "castString (JObj ps) =
     (case map_of ps ''_id'' of
        Some (JStr s) \<Rightarrow> if s \<noteq> [] then Inr (Text s) else Inl CastError
      | _ \<Rightarrow> Inl CastError)"
| "castString v = Inl CastError"

fun strfield_value :: "strfield \<Rightarrow> jsval" where
  "strfield_value Absent = JUndefined"
| "strfield_value IsNull = JNull"
| "strfield_value (Text s) = JStr s"

text \<open>\<^verbatim>\<open>evaluationSchema\<close>, with the \<^verbatim>\<open>_id\<close> every stored document carries.\<close>

record evaluation =
  eid :: nat
  teamName :: strfield
  evaluatorUSN :: strfield
  ratings :: jsval
  feedback :: strfield
  submittedAt :: nat

text \<open>
  The schema is declared without \<^verbatim>\<open>minimize: false\<close>, so Mongoose minimises a
  document whenever it turns it into a plain object, to save it and to serialise it. This
  is the \<^verbatim>\<open>clone\<close> of Mongoose with \<^verbatim>\<open>minimize\<close> set: the properties named \<^verbatim>\<open>__proto__\<close>,
  \<^verbatim>\<open>constructor\<close> and \<^verbatim>\<open>prototype\<close> are skipped, a property whose clone is
  \<^verbatim>\<open>undefined\<close> is left out, and an object left without properties becomes \<^verbatim>\<open>undefined\<close>
  itself, unless it is the element of an array.
\<close>

definition specialProperties :: "string list" where
  "specialProperties = [''__proto__'', ''constructor'', ''prototype'']"

fun clone :: "bool \<Rightarrow> jsval \<Rightarrow> jsval"
  and cloneObject :: "(string \<times> jsval) list \<Rightarrow> (string \<times> jsval) list"
  and cloneArray :: "jsval list \<Rightarrow> jsval list" where
  "clone isArrayChild (JObj ps) =
     (let ret = cloneObject ps in if isArrayChild \<or> ret \<noteq> [] then JObj ret else JUndefined)"
| "clone isArrayChild (JArr xs) = JArr (cloneArray xs)"
| "clone isArrayChild v = v"
| "cloneObject [] = []"
| "cloneObject (p # ps) =
     (if fst p \<in> set specialProperties then cloneObject ps
      else (let val = clone False (snd p) in
            if val = JUndefined then cloneObject ps else (fst p, val) # cloneObject ps))"
| "cloneArray [] = []"
| "cloneArray (x # xs) = clone True x # cloneArray xs"

text \<open>
  A stored document as the value that is handed to the broker: what \<^verbatim>\<open>toJSON\<close> gives for
  a document that \<^verbatim>\<open>find\<close> returned. It carries the paths that are set, minimised, and the
  version key \<^verbatim>\<open>__v\<close>, which is 0 since no handler updates a document.
\<close>

definition set_paths :: "(string \<times> jsval) list \<Rightarrow> (string \<times> jsval) list" where
  "set_paths ps = filter (\<lambda>p. snd p \<noteq> JUndefined) ps"

definition doc_value :: "evaluation \<Rightarrow> jsval" where
  "doc_value r = JObj (set_paths
     [(''_id'', JObjectId (eid r)),
      (''teamName'', strfield_value (teamName r)),
      (''evaluatorUSN'', strfield_value (evaluatorUSN r)),
      (''ratings'', clone False (ratings r)),
      (''feedback'', strfield_value (feedback r)),
      (''submittedAt'', JDate (submittedAt r)),
      (''__v'', JNum 0)])"

datatype db_call = Connect | Create | Find

text \<open>
  The process and its collaborators: \<^verbatim>\<open>mongoose.connection.readyState\<close>, the documents
  of the Evaluation collection in insertion order, the next fresh \<^verbatim>\<open>_id\<close>, the events the
  broker has accepted (channel, event name, payload), and the calls issued to the
  document store.
\<close>

record world =
  readyState :: nat
  store :: "evaluation list"
  nextId :: nat
  published :: "(string \<times> string \<times> jsval) list"
  dbLog :: "db_call list"

text \<open>
  What the outside does during one request: whether \<^verbatim>\<open>mongoose.connect\<close>,
  \<^verbatim>\<open>Evaluation.create\<close> and \<^verbatim>\<open>Evaluation.find\<close> resolve, whether the n-th
  \<^verbatim>\<open>pusher.trigger\<close> of the request resolves (counted from 0), and what \<^verbatim>\<open>new Date()\<close>
  reads.
\<close>

record services =
  connect_ok :: bool
  create_ok :: bool
  find_ok :: bool
  trigger_ok :: "nat \<Rightarrow> bool"
  now :: nat

section \<open>Awaited calls that may throw\<close>

type_synonym 'a io = "world \<Rightarrow> (js_error + 'a) \<times> world"

definition ret :: "'a \<Rightarrow> 'a io" where
  "ret x w = (Inr x, w)"

definition await :: "'a io \<Rightarrow> ('a \<Rightarrow> 'b io) \<Rightarrow> 'b io" where
  "await m f w = (case m w of (Inl e, w') \<Rightarrow> (Inl e, w') | (Inr x, w') \<Rightarrow> f x w')"

definition reading :: "js_error + 'a \<Rightarrow> ('a \<Rightarrow> 'b io) \<Rightarrow> 'b io" where
  "reading r f w = (case r of Inl e \<Rightarrow> (Inl e, w) | Inr x \<Rightarrow> f x w)"

text \<open>
  \<^verbatim>\<open>connectDB\<close>: connects when \<^verbatim>\<open>readyState === 0\<close> and rethrows a failure. A failed
  connection attempt leaves the connection disconnected.
\<close>

definition connectDB :: "services \<Rightarrow> unit io" where
  "connectDB sv w =
     (if readyState w = 0 then
        (if connect_ok sv
         then (Inr (), w\<lparr>readyState := 1, dbLog := dbLog w @ [Connect]\<rparr>)
         else (Inl ConnectError, w\<lparr>dbLog := dbLog w @ [Connect]\<rparr>))
      else (Inr (), w))"

text \<open>
  \<^verbatim>\<open>Evaluation.create({teamName, evaluatorUSN, ratings, feedback, submittedAt})\<close>. The
  three String paths are cast; \<^verbatim>\<open>ratings\<close> is of the mixed type and is set as it comes.
  The call returns the document it has built, and the collection receives that document
  minimised.
\<close>

definition Evaluation_create ::
  "services \<Rightarrow> jsval \<Rightarrow> jsval \<Rightarrow> jsval \<Rightarrow> jsval \<Rightarrow> nat \<Rightarrow> evaluation io" where
  "Evaluation_create sv team evaluator rts fb at w =
     (let w1 = w\<lparr>dbLog := dbLog w @ [Create]\<rparr> in
      case castString team of Inl e \<Rightarrow> (Inl e, w1) | Inr t \<Rightarrow>
     (case castString evaluator of Inl e \<Rightarrow> (Inl e, w1) | Inr u \<Rightarrow>
     (case castString fb of Inl e \<Rightarrow> (Inl e, w1) | Inr f \<Rightarrow>
      if create_ok sv then
        (let doc = \<lparr>eid = nextId w, teamName = t, evaluatorUSN = u, ratings = rts,
                    feedback = f, submittedAt = at\<rparr>
         in (Inr doc,
             w1\<lparr>store := store w @ [doc\<lparr>ratings := clone False rts\<rparr>],
                nextId := Suc (nextId w)\<rparr>))
      else (Inl StoreError, w1))))"

text \<open>
  \<^verbatim>\<open>Evaluation.find({ teamName: q })\<close>: the filter value is cast like the path; a string
  selects the documents with that team name, \<^verbatim>\<open>null\<close> or \<^verbatim>\<open>undefined\<close> the documents
  whose team name is \<^verbatim>\<open>null\<close> or missing.
\<close>

fun team_matches :: "strfield \<Rightarrow> evaluation \<Rightarrow> bool" where
  "team_matches (Text t) r = (teamName r = Text t)"
| "team_matches q r = (teamName r = Absent \<or> teamName r = IsNull)"

definition Evaluation_find_team :: "services \<Rightarrow> jsval \<Rightarrow> evaluation list io" where
  "Evaluation_find_team sv q w =
     (let w1 = w\<lparr>dbLog := dbLog w @ [Find]\<rparr> in
      case castString q of Inl e \<Rightarrow> (Inl e, w1) | Inr t \<Rightarrow>
        (if find_ok sv then (Inr (filter (team_matches t) (store w)), w1)
         else (Inl StoreError, w1)))"

text \<open>\<^verbatim>\<open>Evaluation.find({})\<close>.\<close>

definition Evaluation_find_all :: "services \<Rightarrow> evaluation list io" where
  "Evaluation_find_all sv w =
     (let w1 = w\<lparr>dbLog := dbLog w @ [Find]\<rparr> in
      if find_ok sv then (Inr (store w), w1) else (Inl StoreError, w1))"

text \<open>\<^verbatim>\<open>pusher.trigger(channel, event, data)\<close>, the n-th of the request.\<close>

definition pusher_trigger :: "services \<Rightarrow> nat \<Rightarrow> string \<Rightarrow> string \<Rightarrow> jsval \<Rightarrow> unit io" where
  "pusher_trigger sv n channel event payload w =
     (if trigger_ok sv n
      then (Inr (), w\<lparr>published := published w @ [(channel, event, payload)]\<rparr>)
      else (Inl BrokerError, w))"

section \<open>POST /api/upload\<close>

record response =
  status :: nat
  body :: jsval

definition message_response :: "nat \<Rightarrow> string \<Rightarrow> response" where
  "message_response code msg = \<lparr>status = code, body = JObj [(''message'', JStr msg)]\<rparr>"

text \<open>\<^verbatim>\<open>type === 'participants' || type === 'teams'\<close>, giving the string for the message.\<close>

fun bulk_type :: "jsval \<Rightarrow> string option" where
  "bulk_type (JStr ty) = (if ty = ''participants'' \<or> ty = ''teams'' then Some ty else None)"
| "bulk_type v = None"

definition relay_events :: "string list" where
  "relay_events = [''presentationStarting'', ''presentationStarted'', ''presentationEnded'',
                   ''timeSync'', ''evaluationForm'', ''presentationReset'']"

text \<open>The case \<^verbatim>\<open>'evaluationSubmitted'\<close> of the switch, up to its \<^verbatim>\<open>break\<close>.\<close>

definition evaluationSubmitted :: "services \<Rightarrow> jsval \<Rightarrow> unit io" where
  "evaluationSubmitted sv data =
     reading (get_prop data ''team'') (\<lambda>team.
     reading (get_prop data ''evaluator'') (\<lambda>evaluator.
     reading (get_prop data ''evaluation'') (\<lambda>ev.
     reading (get_prop ev ''ratings'') (\<lambda>rts.
     reading (get_prop ev ''feedback'') (\<lambda>fb.
     await (Evaluation_create sv team evaluator rts fb (now sv)) (\<lambda>evaluation.
     await (pusher_trigger sv 0 ''presentation'' ''evaluationSubmitted''
              (JObj (AList.update ''evaluationId'' (JObjectId (eid evaluation))
                       (own_props data)))) (\<lambda>_.
     await (Evaluation_find_team sv team) (\<lambda>teamEvaluations.
     pusher_trigger sv 1 ''presentation'' ''teamEvaluations''
       (JObj [(''team'', team),
              (''evaluations'', JArr (map doc_value teamEvaluations))])))))))))"

text \<open>The \<^verbatim>\<open>switch (event)\<close> with the response that follows it.\<close>

definition dispatch :: "services \<Rightarrow> jsval \<Rightarrow> jsval \<Rightarrow> response io" where
  "dispatch sv event data =
     (case event of
        JStr name \<Rightarrow>
          if name \<in> set relay_events then
            await (pusher_trigger sv 0 ''presentation'' name data) (\<lambda>_.
            ret (message_response 200 ''Event processed successfully''))
          else if name = ''evaluationSubmitted'' then
            await (evaluationSubmitted sv data) (\<lambda>_.
            ret (message_response 200 ''Event processed successfully''))
          else ret (message_response 400 ''Invalid event type'')
      | _ \<Rightarrow> ret (message_response 400 ''Invalid event type''))"

text \<open>The body of the \<^verbatim>\<open>try\<close> block of the handler.\<close>

definition upload_try :: "services \<Rightarrow> jsval \<Rightarrow> response io" where
  "upload_try sv req_body =
     await (connectDB sv) (\<lambda>_.
     reading (get_prop req_body ''event'') (\<lambda>event.
     reading (get_prop req_body ''data'') (\<lambda>data.
     reading (get_prop req_body ''type'') (\<lambda>type.
       case bulk_type type of
         Some ty \<Rightarrow>
           reading (get_prop data ''length'') (\<lambda>count.
           ret \<lparr>status = 200,
                body = JObj [(''message'', JStr (''Successfully processed '' @ ty @ '' upload'')),
                             (''count'', count)]\<rparr>)
       | None \<Rightarrow> dispatch sv event data))))"

text \<open>The handler: whatever is thrown becomes the 500 response of the \<^verbatim>\<open>catch\<close> block.\<close>

definition api_upload :: "services \<Rightarrow> jsval \<Rightarrow> world \<Rightarrow> response \<times> world" where
  "api_upload sv req_body w =
     (case upload_try sv req_body w of
        (Inl e, w') \<Rightarrow> (message_response 500 ''Internal server error'', w')
      | (Inr res, w') \<Rightarrow> (res, w'))"

section \<open>GET /health\<close>

definition health :: "world \<Rightarrow> response \<times> world" where
  "health w = (\<lparr>status = 200, body = JObj [(''status'', JStr ''ok'')]\<rparr>, w)"

section \<open>GET /feedbacks\<close>

text \<open>
  The property names that the empty object literal \<^verbatim>\<open>{}\<close> inherits from
  \<^verbatim>\<open>Object.prototype\<close>. Reading any of them on \<^verbatim>\<open>{}\<close> gives a function, or the prototype
  itself for \<^verbatim>\<open>__proto__\<close>: a truthy value without a \<^verbatim>\<open>push\<close> method.
\<close>

definition object_prototype_keys :: "string list" where
  "object_prototype_keys =
     [''constructor'', ''__defineGetter__'', ''__defineSetter__'', ''hasOwnProperty'',
      ''__lookupGetter__'', ''__lookupSetter__'', ''isPrototypeOf'', ''propertyIsEnumerable'',
      ''toString'', ''valueOf'', ''__proto__'', ''toLocaleString'']"

text \<open>The property key that \<^verbatim>\<open>acc[evaluation.teamName]\<close> uses.\<close>

fun property_key :: "strfield \<Rightarrow> string" where
  "property_key (Text s) = s"
| "property_key IsNull = ''null''"
| "property_key Absent = ''undefined''"

definition feedback_entry :: "evaluation \<Rightarrow> jsval" where
  "feedback_entry r = JObj
     [(''evaluatorUSN'', strfield_value (evaluatorUSN r)),
      (''ratings'', ratings r),
      (''feedback'', strfield_value (feedback r)),
      (''submittedAt'', JDate (submittedAt r))]"

text \<open>
  One call of the reducer. \<^verbatim>\<open>acc\<close> is held as the map of its own properties, each an
  array. With no own property under the key, \<^verbatim>\<open>acc[key]\<close> is the inherited property if
  there is one: then the array is not initialised and \<^verbatim>\<open>.push\<close> is not a function.
\<close>

definition group_step ::
  "(string \<rightharpoonup> jsval list) \<Rightarrow> evaluation \<Rightarrow> js_error + (string \<rightharpoonup> jsval list)" where
  "group_step acc r =
     (let k = property_key (teamName r) in
      case acc k of
        Some es \<Rightarrow> Inr (acc(k \<mapsto> es @ [feedback_entry r]))
      | None \<Rightarrow>
          if k \<in> set object_prototype_keys then Inl TypeError
          else Inr (acc(k \<mapsto> [feedback_entry r])))"

text \<open>\<^verbatim>\<open>evaluations.reduce(..., acc)\<close>.\<close>

fun group_feedbacks ::
  "(string \<rightharpoonup> jsval list) \<Rightarrow> evaluation list \<Rightarrow> js_error + (string \<rightharpoonup> jsval list)" where
  "group_feedbacks acc [] = Inr acc"
| "group_feedbacks acc (r # rs) =
     (case group_step acc r of Inl e \<Rightarrow> Inl e | Inr acc' \<Rightarrow> group_feedbacks acc' rs)"

datatype feedbacks_body =
    Grouped "string \<rightharpoonup> jsval list"
  | Message string

definition feedbacks_try :: "services \<Rightarrow> (string \<rightharpoonup> jsval list) io" where
  "feedbacks_try sv =
     await (connectDB sv) (\<lambda>_.
     await (Evaluation_find_all sv) (\<lambda>evaluations.
     reading (group_feedbacks Map.empty evaluations) ret))"

definition feedbacks :: "services \<Rightarrow> world \<Rightarrow> (nat \<times> feedbacks_body) \<times> world" where
  "feedbacks sv w =
     (case feedbacks_try sv w of
        (Inl e, w') \<Rightarrow> ((500, Message ''Internal server error''), w')
      | (Inr groupedFeedbacks, w') \<Rightarrow> ((200, Grouped groupedFeedbacks), w'))"

section \<open>Vocabulary of the properties\<close>

text \<open>
  The connection step of a request goes through: the connection is not in state 0, or
  the connection attempt resolves.
\<close>

definition db_reachable :: "services \<Rightarrow> world \<Rightarrow> bool" where
  "db_reachable sv w = (readyState w \<noteq> 0 \<or> connect_ok sv)"

text \<open>The world after a connection step that went through.\<close>

definition connected :: "world \<Rightarrow> world" where
  "connected w =
     (if readyState w = 0 then w\<lparr>readyState := 1, dbLog := dbLog w @ [Connect]\<rparr> else w)"

text \<open>The event names that the switch has a case for.\<close>

definition recognised_event :: "jsval \<Rightarrow> bool" where
  "recognised_event event =
     (case event of
        JStr name \<Rightarrow> name \<in> set relay_events \<or> name = ''evaluationSubmitted''
      | _ \<Rightarrow> False)"

text \<open>
  A request body that submits an evaluation: the event is \<^verbatim>\<open>evaluationSubmitted\<close>, the
  type is not one of the two bulk types, and data is an object with a team, an evaluator
  and an evaluation that has ratings and a feedback text.
\<close>

definition submission ::
  "jsval \<Rightarrow> (string \<times> jsval) list \<Rightarrow> string \<Rightarrow> string \<Rightarrow> jsval \<Rightarrow> string \<Rightarrow> bool" where
  "submission req_body props team evaluator rts fb =
     (get_prop req_body ''event'' = Inr (JStr ''evaluationSubmitted'') \<and>
      (case get_prop req_body ''type'' of Inr ty \<Rightarrow> bulk_type ty = None | Inl e \<Rightarrow> False) \<and>
      get_prop req_body ''data'' = Inr (JObj props) \<and>
      map_of props ''team'' = Some (JStr team) \<and>
      map_of props ''evaluator'' = Some (JStr evaluator) \<and>
      (case map_of props ''evaluation'' of
         Some ev \<Rightarrow> get_prop ev ''ratings'' = Inr rts \<and> get_prop ev ''feedback'' = Inr (JStr fb)
       | None \<Rightarrow> False))"

text \<open>Collaborators that all answer, at time \<open>t\<close>; and a process that has just started.\<close>

definition services_up :: "nat \<Rightarrow> services" where
  "services_up t =
     \<lparr>connect_ok = True, create_ok = True, find_ok = True, trigger_ok = (\<lambda>n. True), now = t\<rparr>"

definition cold_start :: world where
  "cold_start = \<lparr>readyState = 0, store = [], nextId = 0, published = [], dbLog = []\<rparr>"

text \<open>
  The grouping that GET /feedbacks is meant to answer with: one key for each property key
  of a stored team name, bound to the entries of the documents under that key, in the
  order of the store.
\<close>

definition grouped :: "evaluation list \<Rightarrow> (string \<rightharpoonup> jsval list)" where
  "grouped rs k =
     (if k \<in> (\<lambda>r. property_key (teamName r)) ` set rs
      then Some (map feedback_entry (filter (\<lambda>r. property_key (teamName r) = k) rs))
      else None)"

text \<open>
  A submission for team T1 by evaluator U1 with the given ratings, as a request body, and
  the own properties of its data.
\<close>

definition sample_data :: "jsval \<Rightarrow> (string \<times> jsval) list" where
  "sample_data rts =
     [(''team'', JStr ''T1''), (''evaluator'', JStr ''U1''),
      (''evaluation'', JObj [(''ratings'', rts), (''feedback'', JStr ''clear'')])]"

definition sample_submission :: "jsval \<Rightarrow> jsval" where
  "sample_submission rts =
     JObj [(''event'', JStr ''evaluationSubmitted''), (''data'', JObj (sample_data rts))]"

text \<open>A running process whose store holds one evaluation of T1 and one of T2.\<close>

definition two_stored :: world where
  "two_stored =
     \<lparr>readyState = 1,
      store =
        [\<lparr>eid = 0, teamName = Text ''T1'', evaluatorUSN = Text ''U7'',
          ratings = JObj [(''clarity'', JNum 3)], feedback = Text ''fine'', submittedAt = 1\<rparr>,
         \<lparr>eid = 1, teamName = Text ''T2'', evaluatorUSN = Text ''U7'',
          ratings = JObj [(''clarity'', JNum 5)], feedback = Text ''good'', submittedAt = 2\<rparr>],
      nextId = 2, published = [], dbLog = []\<rparr>"

text \<open>A relay request: the event name and some data.\<close>

definition relay_request :: "string \<Rightarrow> jsval" where
  "relay_request name =
     JObj [(''event'', JStr name), (''data'', JObj [(''remaining'', JNum 90)])]"

text \<open>
  Ratings that map categories to numbers and texts: at least one category, none named
  like a skipped property.
\<close>

definition flat_ratings :: "(string \<times> jsval) list \<Rightarrow> bool" where
  "flat_ratings ps =
     (ps \<noteq> [] \<and>
      list_all (\<lambda>p. fst p \<notin> set specialProperties \<and>
                     (case snd p of JNum n \<Rightarrow> True | JStr t \<Rightarrow> True | _ \<Rightarrow> False)) ps)"

section \<open>Reading properties, sequencing, the connection step\<close>

lemma get_prop_defined: "get_prop v k = Inr x \<Longrightarrow> \<exists>y. get_prop v k' = Inr y"
  by (cases v) simp_all

lemma get_prop_str_is_object: "get_prop v k = Inr (JStr s) \<Longrightarrow> \<exists>ps. v = JObj ps"
  by (cases v) (simp_all split: if_splits)

lemma get_prop_nested_is_object:
  "get_prop v k = Inr x \<Longrightarrow> get_prop x k' = Inr y \<Longrightarrow> k \<noteq> ''length'' \<Longrightarrow> \<exists>ps. v = JObj ps"
  by (cases v) (auto split: if_splits)

lemma await_Inr: "m w = (Inr x, w') \<Longrightarrow> await m f w = f x w'"
  by (simp add: await_def)

lemma await_Inl: "m w = (Inl e, w') \<Longrightarrow> await m f w = (Inl e, w')"
  by (simp add: await_def)

lemma reading_Inr: "reading (Inr x) f = f x"
  by (rule ext) (simp add: reading_def)

lemma reading_Inl: "reading (Inl e) f w = (Inl e, w)"
  by (simp add: reading_def)

lemma connectDB_reachable: "db_reachable sv w \<Longrightarrow> connectDB sv w = (Inr (), connected w)"
  by (auto simp add: db_reachable_def connectDB_def connected_def)

lemma connectDB_unreachable:
  "\<not> db_reachable sv w \<Longrightarrow>
   connectDB sv w = (Inl ConnectError, w\<lparr>dbLog := dbLog w @ [Connect]\<rparr>)"
  by (simp add: db_reachable_def connectDB_def)

text \<open>The try block of the upload handler once the connection step is through.\<close>

lemma upload_try_bulk:
  assumes "db_reachable sv w"
    and "get_prop req_body ''event'' = Inr event"
    and "get_prop req_body ''data'' = Inr data"
    and "get_prop req_body ''type'' = Inr ty"
    and "bulk_type ty = Some name"
  shows "upload_try sv req_body w =
           reading (get_prop data ''length'') (\<lambda>count.
             ret \<lparr>status = 200,
                  body = JObj [(''message'', JStr (''Successfully processed '' @ name @ '' upload'')),
                               (''count'', count)]\<rparr>) (connected w)"
  using assms by (simp add: upload_try_def await_Inr [OF connectDB_reachable] reading_Inr)

lemma upload_try_dispatch:
  assumes "db_reachable sv w"
    and "get_prop req_body ''event'' = Inr event"
    and "get_prop req_body ''data'' = Inr data"
    and "get_prop req_body ''type'' = Inr ty"
    and "bulk_type ty = None"
  shows "upload_try sv req_body w = dispatch sv event data (connected w)"
  using assms by (simp add: upload_try_def await_Inr [OF connectDB_reachable] reading_Inr)

lemma upload_try_unreachable:
  "\<not> db_reachable sv w \<Longrightarrow>
   upload_try sv req_body w = (Inl ConnectError, w\<lparr>dbLog := dbLog w @ [Connect]\<rparr>)"
  by (simp add: upload_try_def await_Inl [OF connectDB_unreachable])

lemma dispatch_unrecognised:
  "\<not> recognised_event event \<Longrightarrow>
   dispatch sv event data w = (Inr (message_response 400 ''Invalid event type''), w)"
  by (cases event) (simp_all add: dispatch_def recognised_event_def ret_def)

lemma dispatch_relay:
  "name \<in> set relay_events \<Longrightarrow>
   dispatch sv (JStr name) data =
     await (pusher_trigger sv 0 ''presentation'' name data) (\<lambda>_.
       ret (message_response 200 ''Event processed successfully''))"
  by (simp add: dispatch_def)

lemma dispatch_submitted:
  "dispatch sv (JStr ''evaluationSubmitted'') data =
     await (evaluationSubmitted sv data) (\<lambda>_.
       ret (message_response 200 ''Event processed successfully''))"
  by (simp add: dispatch_def relay_events_def)

section \<open>The submission path\<close>

lemma evaluationSubmitted_reads:
  assumes "map_of props ''team'' = Some team"
    and "map_of props ''evaluator'' = Some evaluator"
    and "map_of props ''evaluation'' = Some ev"
    and "get_prop ev ''ratings'' = Inr rts"
    and "get_prop ev ''feedback'' = Inr fb"
  shows "evaluationSubmitted sv (JObj props) =
     await (Evaluation_create sv team evaluator rts fb (now sv)) (\<lambda>evaluation.
     await (pusher_trigger sv 0 ''presentation'' ''evaluationSubmitted''
              (JObj (AList.update ''evaluationId'' (JObjectId (eid evaluation)) props))) (\<lambda>_.
     await (Evaluation_find_team sv team) (\<lambda>teamEvaluations.
     pusher_trigger sv 1 ''presentation'' ''teamEvaluations''
       (JObj [(''team'', team),
              (''evaluations'', JArr (map doc_value teamEvaluations))]))))"
  using assms by (simp add: evaluationSubmitted_def reading_Inr)

lemma Evaluation_create_texts:
  "create_ok sv \<Longrightarrow>
   Evaluation_create sv (JStr team) (JStr evaluator) rts (JStr fb) at w =
     (Inr \<lparr>eid = nextId w, teamName = Text team, evaluatorUSN = Text evaluator, ratings = rts,
           feedback = Text fb, submittedAt = at\<rparr>,
      w\<lparr>dbLog := dbLog w @ [Create],
        store := store w @ [\<lparr>eid = nextId w, teamName = Text team, evaluatorUSN = Text evaluator,
                              ratings = clone False rts, feedback = Text fb, submittedAt = at\<rparr>],
        nextId := Suc (nextId w)\<rparr>)"
  by (simp add: Evaluation_create_def Let_def)

text \<open>Minimising leaves flat ratings as they are.\<close>

lemma cloneObject_flat:
  "list_all (\<lambda>p. fst p \<notin> set specialProperties \<and>
                   (case snd p of JNum n \<Rightarrow> True | JStr t \<Rightarrow> True | _ \<Rightarrow> False)) ps \<Longrightarrow>
   cloneObject ps = ps"
proof (induction ps)
  case Nil
  show ?case by simp
next
  case (Cons p ps)
  then obtain k v where p: "p = (k, v)" by (cases p)
  from Cons.prems p have "clone False v = v" "v \<noteq> JUndefined"
    by (cases v; simp)+
  with Cons p show ?case
    by (simp add: Let_def)
qed

lemma clone_flat_ratings: "flat_ratings ps \<Longrightarrow> clone False (JObj ps) = JObj ps"
  by (simp add: flat_ratings_def cloneObject_flat Let_def)

lemma team_matches_Text: "team_matches (Text t) = (\<lambda>r. teamName r = Text t)"
  by (rule ext) simp

lemma Evaluation_find_team_text:
  "Evaluation_find_team sv (JStr team) w =
     (if find_ok sv then Inr (filter (\<lambda>r. teamName r = Text team) (store w)) else Inl StoreError,
      w\<lparr>dbLog := dbLog w @ [Find]\<rparr>)"
  by (simp add: Evaluation_find_team_def Let_def team_matches_Text)

lemma submissionD:
  assumes "submission req_body props team evaluator rts fb"
  obtains ty ev where
    "get_prop req_body ''event'' = Inr (JStr ''evaluationSubmitted'')"
    "get_prop req_body ''type'' = Inr ty" "bulk_type ty = None"
    "get_prop req_body ''data'' = Inr (JObj props)"
    "map_of props ''team'' = Some (JStr team)"
    "map_of props ''evaluator'' = Some (JStr evaluator)"
    "map_of props ''evaluation'' = Some ev"
    "get_prop ev ''ratings'' = Inr rts"
    "get_prop ev ''feedback'' = Inr (JStr fb)"
  using assms unfolding submission_def by (auto split: sum.splits option.splits)

text \<open>The try block on a submission, once the connection step and the create call are through.\<close>

lemma upload_try_submission:
  assumes sub: "submission req_body props team evaluator rts fb"
    and db: "db_reachable sv w"
    and cr: "create_ok sv"
  shows "upload_try sv req_body w =
     await
      (await (pusher_trigger sv 0 ''presentation'' ''evaluationSubmitted''
              (JObj (AList.update ''evaluationId'' (JObjectId (nextId w)) props))) (\<lambda>_.
       await (Evaluation_find_team sv (JStr team)) (\<lambda>teamEvaluations.
       pusher_trigger sv 1 ''presentation'' ''teamEvaluations''
         (JObj [(''team'', JStr team),
                (''evaluations'', JArr (map doc_value teamEvaluations))]))))
      (\<lambda>_. ret (message_response 200 ''Event processed successfully''))
      ((connected w)\<lparr>dbLog := dbLog (connected w) @ [Create],
        store := store w @ [\<lparr>eid = nextId w, teamName = Text team, evaluatorUSN = Text evaluator,
                              ratings = clone False rts, feedback = Text fb,
                              submittedAt = now sv\<rparr>],
        nextId := Suc (nextId w)\<rparr>)"
proof -
  from sub obtain ty ev where h:
    "get_prop req_body ''event'' = Inr (JStr ''evaluationSubmitted'')"
    "get_prop req_body ''type'' = Inr ty" "bulk_type ty = None"
    "get_prop req_body ''data'' = Inr (JObj props)"
    "map_of props ''team'' = Some (JStr team)"
    "map_of props ''evaluator'' = Some (JStr evaluator)"
    "map_of props ''evaluation'' = Some ev"
    "get_prop ev ''ratings'' = Inr rts"
    "get_prop ev ''feedback'' = Inr (JStr fb)"
    by (rule submissionD)
  have c: "store (connected w) = store w" "nextId (connected w) = nextId w"
    by (simp_all add: connected_def)
  show ?thesis
    unfolding upload_try_dispatch [OF db h(1) h(4) h(2) h(3)] dispatch_submitted
      evaluationSubmitted_reads [OF h(5) h(6) h(7) h(8) h(9)]
    by (simp add: await_def Evaluation_create_texts [OF cr] c)
qed

section \<open>Grouping the feedbacks\<close>

text \<open>
  As long as no stored team name has the property key of an inherited property, the
  reducer computes \<open>grouped\<close>, from any accumulator.
\<close>

lemma group_feedbacks_from:
  assumes "\<forall>r \<in> set rs. property_key (teamName r) \<notin> set object_prototype_keys"
  shows "group_feedbacks acc rs =
           Inr (\<lambda>k. case acc k of
                       Some es \<Rightarrow>
                         Some (es @ map feedback_entry
                                 (filter (\<lambda>r. property_key (teamName r) = k) rs))
                     | None \<Rightarrow> grouped rs k)"
  using assms
proof (induction rs arbitrary: acc)
  case Nil
  show ?case
    by (auto simp add: grouped_def split: option.splits)
next
  case (Cons r rs)
  let ?k = "property_key (teamName r)"
  from Cons.prems have fresh: "?k \<notin> set object_prototype_keys"
    and rest: "\<forall>r \<in> set rs. property_key (teamName r) \<notin> set object_prototype_keys"
    by simp_all
  show ?case
  proof (cases "acc ?k")
    case None
    then have step: "group_step acc r = Inr (acc(?k \<mapsto> [feedback_entry r]))"
      using fresh by (simp add: group_step_def Let_def)
    show ?thesis
      unfolding group_feedbacks.simps step sum.case Cons.IH [OF rest]
      using None by (auto simp add: grouped_def fun_eq_iff split: option.splits)
  next
    case (Some es)
    then have step: "group_step acc r = Inr (acc(?k \<mapsto> es @ [feedback_entry r]))"
      by (simp add: group_step_def Let_def)
    show ?thesis
      unfolding group_feedbacks.simps step sum.case Cons.IH [OF rest]
      using Some by (auto simp add: grouped_def fun_eq_iff split: option.splits)
  qed
qed

section \<open>The health check\<close>

text \<open>
  C8. Every GET /health request is answered with the body \<^verbatim>\<open>{status: "ok"}\<close>, whatever the
  state of the database connection and of the broker: the handler takes nothing from the
  collaborators and leaves the world as it is (no database call, no broadcast).
\<close>

theorem health_always_ok:
  "fst (health w) = \<lparr>status = 200, body = JObj [(''status'', JStr ''ok'')]\<rparr> \<and> snd (health w) = w"
  by (simp add: health_def)

section \<open>Ensuring the connection\<close>

text \<open>
  C7. \<^verbatim>\<open>connectDB\<close> attempts a connection only in state 0: in any other state it returns
  without a call and leaves the whole world, the connection state included, as it was; a
  call that changed the log of database calls started from state 0. Calling it again after
  a call that succeeded does nothing, and a second call never changes the connection state
  that the first one left.
\<close>

theorem connectDB_idempotent:
  "(readyState w \<noteq> 0 \<longrightarrow> connectDB sv w = (Inr (), w)) \<and>
   (dbLog (snd (connectDB sv w)) \<noteq> dbLog w \<longrightarrow> readyState w = 0) \<and>
   (fst (connectDB sv w) = Inr () \<longrightarrow>
      connectDB sv (snd (connectDB sv w)) = (Inr (), snd (connectDB sv w))) \<and>
   readyState (snd (connectDB sv (snd (connectDB sv w)))) = readyState (snd (connectDB sv w))"
  by (simp add: connectDB_def)

theorem connectDB_idempotent_witness:
  "readyState (cold_start\<lparr>readyState := 1\<rparr>) \<noteq> 0 \<and>
   connectDB (services_up 0) (cold_start\<lparr>readyState := 1\<rparr>) = (Inr (), cold_start\<lparr>readyState := 1\<rparr>) \<and>
   dbLog (snd (connectDB (services_up 0) cold_start)) \<noteq> dbLog cold_start \<and>
   readyState cold_start = 0 \<and>
   fst (connectDB (services_up 0) cold_start) = Inr () \<and>
   connectDB (services_up 0) (snd (connectDB (services_up 0) cold_start)) =
     (Inr (), snd (connectDB (services_up 0) cold_start))"
  using connectDB_idempotent [of "cold_start\<lparr>readyState := 1\<rparr>" "services_up 0"]
    connectDB_idempotent [of cold_start "services_up 0"]
  by (simp add: connectDB_def services_up_def cold_start_def)

section \<open>The upload handler\<close>




text \<open>
  C2. A request whose event is presentationStarting, presentationStarted,
  presentationEnded, timeSync, evaluationForm or presentationReset, with no bulk type,
  while the connection step goes through and the broker answers: exactly one event is
  published, on the channel \<^verbatim>\<open>presentation\<close>, under the name of the request and with its
  data unchanged; the store is unchanged and no create call is issued; the response is the
  200 acknowledgment.
\<close>

theorem relay_event_broadcast:
  assumes "get_prop req_body ''event'' = Inr (JStr name)"
    and "name = ''presentationStarting'' \<or> name = ''presentationStarted'' \<or>
         name = ''presentationEnded'' \<or> name = ''timeSync'' \<or>
         name = ''evaluationForm'' \<or> name = ''presentationReset''"
    and "get_prop req_body ''type'' = Inr ty"
    and "bulk_type ty = None"
    and "get_prop req_body ''data'' = Inr data"
    and "db_reachable sv w"
    and "trigger_ok sv 0"
  shows "fst (api_upload sv req_body w) =
           \<lparr>status = 200, body = JObj [(''message'', JStr ''Event processed successfully'')]\<rparr> \<and>
         published (snd (api_upload sv req_body w)) =
           published w @ [(''presentation'', name, data)] \<and>
         store (snd (api_upload sv req_body w)) = store w \<and>
         Create \<notin> set (drop (length (dbLog w)) (dbLog (snd (api_upload sv req_body w))))"
proof -
  have relay: "name \<in> set relay_events"
    using assms(2) by (auto simp add: relay_events_def)
  have "upload_try sv req_body w =
          (Inr (message_response 200 ''Event processed successfully''),
           (connected w)\<lparr>published := published (connected w) @ [(''presentation'', name, data)]\<rparr>)"
    using assms(7)
    by (simp add: upload_try_dispatch [OF assms(6) assms(1) assms(5) assms(3) assms(4)]
        dispatch_relay [OF relay] await_def pusher_trigger_def ret_def)
  then show ?thesis
    by (simp add: api_upload_def connected_def message_response_def)
qed

theorem relay_event_broadcast_witness:
  "db_reachable (services_up 0) two_stored \<and> trigger_ok (services_up 0) 0 \<and>
   fst (api_upload (services_up 0) (relay_request ''presentationStarting'') two_stored) =
     \<lparr>status = 200, body = JObj [(''message'', JStr ''Event processed successfully'')]\<rparr> \<and>
   published (snd (api_upload (services_up 0) (relay_request ''presentationStarting'') two_stored)) =
     [(''presentation'', ''presentationStarting'', JObj [(''remaining'', JNum 90)])] \<and>
   store (snd (api_upload (services_up 0) (relay_request ''presentationStarting'') two_stored)) =
     store two_stored \<and>
   fst (api_upload (services_up 0) (relay_request ''presentationStarted'') two_stored) =
     \<lparr>status = 200, body = JObj [(''message'', JStr ''Event processed successfully'')]\<rparr> \<and>
   published (snd (api_upload (services_up 0) (relay_request ''presentationStarted'') two_stored)) =
     [(''presentation'', ''presentationStarted'', JObj [(''remaining'', JNum 90)])] \<and>
   store (snd (api_upload (services_up 0) (relay_request ''presentationStarted'') two_stored)) =
     store two_stored \<and>
   fst (api_upload (services_up 0) (relay_request ''presentationEnded'') two_stored) =
     \<lparr>status = 200, body = JObj [(''message'', JStr ''Event processed successfully'')]\<rparr> \<and>
   published (snd (api_upload (services_up 0) (relay_request ''presentationEnded'') two_stored)) =
     [(''presentation'', ''presentationEnded'', JObj [(''remaining'', JNum 90)])] \<and>
   store (snd (api_upload (services_up 0) (relay_request ''presentationEnded'') two_stored)) =
     store two_stored \<and>
   fst (api_upload (services_up 0) (relay_request ''timeSync'') two_stored) =
     \<lparr>status = 200, body = JObj [(''message'', JStr ''Event processed successfully'')]\<rparr> \<and>
   published (snd (api_upload (services_up 0) (relay_request ''timeSync'') two_stored)) =
     [(''presentation'', ''timeSync'', JObj [(''remaining'', JNum 90)])] \<and>
   store (snd (api_upload (services_up 0) (relay_request ''timeSync'') two_stored)) =
     store two_stored \<and>
   fst (api_upload (services_up 0) (relay_request ''evaluationForm'') two_stored) =
     \<lparr>status = 200, body = JObj [(''message'', JStr ''Event processed successfully'')]\<rparr> \<and>
   published (snd (api_upload (services_up 0) (relay_request ''evaluationForm'') two_stored)) =
     [(''presentation'', ''evaluationForm'', JObj [(''remaining'', JNum 90)])] \<and>
   store (snd (api_upload (services_up 0) (relay_request ''evaluationForm'') two_stored)) =
     store two_stored \<and>
   fst (api_upload (services_up 0) (relay_request ''presentationReset'') two_stored) =
     \<lparr>status = 200, body = JObj [(''message'', JStr ''Event processed successfully'')]\<rparr> \<and>
   published (snd (api_upload (services_up 0) (relay_request ''presentationReset'') two_stored)) =
     [(''presentation'', ''presentationReset'', JObj [(''remaining'', JNum 90)])] \<and>
   store (snd (api_upload (services_up 0) (relay_request ''presentationReset'') two_stored)) =
     store two_stored"
  using relay_event_broadcast
      [of "relay_request ''presentationStarting''" "''presentationStarting''" JUndefined "JObj [(''remaining'', JNum 90)]"
          "services_up 0" two_stored]
    relay_event_broadcast
      [of "relay_request ''presentationStarted''" "''presentationStarted''" JUndefined "JObj [(''remaining'', JNum 90)]"
          "services_up 0" two_stored]
    relay_event_broadcast
      [of "relay_request ''presentationEnded''" "''presentationEnded''" JUndefined "JObj [(''remaining'', JNum 90)]"
          "services_up 0" two_stored]
    relay_event_broadcast
      [of "relay_request ''timeSync''" "''timeSync''" JUndefined "JObj [(''remaining'', JNum 90)]"
          "services_up 0" two_stored]
    relay_event_broadcast
      [of "relay_request ''evaluationForm''" "''evaluationForm''" JUndefined "JObj [(''remaining'', JNum 90)]"
          "services_up 0" two_stored]
    relay_event_broadcast
      [of "relay_request ''presentationReset''" "''presentationReset''" JUndefined "JObj [(''remaining'', JNum 90)]"
          "services_up 0" two_stored]
  by (simp add: relay_request_def db_reachable_def services_up_def two_stored_def)

text \<open>
  C3, as the code has it. A request with no bulk type whose event is none of the names of
  the switch, once the connection step has gone through: the response is 400 with the
  message \<^verbatim>\<open>Invalid event type\<close>, nothing is published, no document is created and none
  is queried. The connection step itself is not skipped: from state 0 the handler issues
  one connection attempt to the document store, and no other database call.
\<close>

theorem unknown_event_rejected:
  assumes "get_prop req_body ''event'' = Inr event"
    and "\<not> recognised_event event"
    and "get_prop req_body ''type'' = Inr ty"
    and "bulk_type ty = None"
    and "db_reachable sv w"
  shows "fst (api_upload sv req_body w) = message_response 400 ''Invalid event type'' \<and>
         published (snd (api_upload sv req_body w)) = published w \<and>
         store (snd (api_upload sv req_body w)) = store w \<and>
         dbLog (snd (api_upload sv req_body w)) =
           dbLog w @ (if readyState w = 0 then [Connect] else [])"
proof -
  obtain data where d: "get_prop req_body ''data'' = Inr data"
    using get_prop_defined [OF assms(1)] by blast
  have "upload_try sv req_body w = (Inr (message_response 400 ''Invalid event type''), connected w)"
    by (simp add: upload_try_dispatch [OF assms(5) assms(1) d assms(3) assms(4)]
        dispatch_unrecognised [OF assms(2)])
  then show ?thesis
    by (simp add: api_upload_def connected_def)
qed

theorem unknown_event_rejected_witness:
  "\<not> recognised_event (JStr ''presentationPaused'') \<and>
   db_reachable (services_up 0) cold_start \<and>
   fst (api_upload (services_up 0) (JObj [(''event'', JStr ''presentationPaused'')]) cold_start) =
     message_response 400 ''Invalid event type'' \<and>
   published (snd (api_upload (services_up 0)
       (JObj [(''event'', JStr ''presentationPaused'')]) cold_start)) = []"
  using unknown_event_rejected
    [of "JObj [(''event'', JStr ''presentationPaused'')]" "JStr ''presentationPaused''"
        JUndefined "services_up 0" cold_start]
  by (simp add: recognised_event_def relay_events_def db_reachable_def services_up_def
      cold_start_def)

text \<open>
  C3, as it is stated, asks for no call to the persistence layer at all. On a process that
  has just started, with every collaborator answering, an unknown event is answered with
  400, and yet the handler has connected to the document store: the log of database calls
  holds the connection attempt and the connection state has moved from 0 to 1.
\<close>

theorem unknown_event_connects_counterexample:
  "status (fst (api_upload (services_up 0) (JObj [(''event'', JStr ''presentationPaused'')]) cold_start)) = 400 \<and>
   dbLog cold_start = [] \<and>
   dbLog (snd (api_upload (services_up 0) (JObj [(''event'', JStr ''presentationPaused'')]) cold_start)) = [Connect] \<and>
   readyState cold_start = 0 \<and>
   readyState (snd (api_upload (services_up 0) (JObj [(''event'', JStr ''presentationPaused'')]) cold_start)) = 1"
  by (simp add: api_upload_def upload_try_def await_def reading_def connectDB_def
      services_up_def cold_start_def dispatch_def relay_events_def ret_def message_response_def)

text \<open>
  C4. A request whose type is \<^verbatim>\<open>participants\<close> or \<^verbatim>\<open>teams\<close> and whose data is a list,
  once the connection step has gone through: the response is 200 with the upload message
  and the number of items of the list as count; the store and the published events are
  unchanged and no create call is issued. Nothing is asked of the event name.
\<close>

theorem bulk_upload_acknowledged:
  assumes "get_prop req_body ''type'' = Inr (JStr ty)"
    and "ty = ''participants'' \<or> ty = ''teams''"
    and "get_prop req_body ''data'' = Inr (JArr xs)"
    and "db_reachable sv w"
  shows "fst (api_upload sv req_body w) =
           \<lparr>status = 200,
            body = JObj [(''message'', JStr (''Successfully processed '' @ ty @ '' upload'')),
                         (''count'', JNum (int (length xs)))]\<rparr> \<and>
         store (snd (api_upload sv req_body w)) = store w \<and>
         published (snd (api_upload sv req_body w)) = published w \<and>
         Create \<notin> set (drop (length (dbLog w)) (dbLog (snd (api_upload sv req_body w))))"
proof -
  obtain event where ev: "get_prop req_body ''event'' = Inr event"
    using get_prop_defined [OF assms(1)] by blast
  have bt: "bulk_type (JStr ty) = Some ty"
    using assms(2) by auto
  have "upload_try sv req_body w =
          (Inr \<lparr>status = 200,
                body = JObj [(''message'', JStr (''Successfully processed '' @ ty @ '' upload'')),
                             (''count'', JNum (int (length xs)))]\<rparr>, connected w)"
    by (simp add: upload_try_bulk [OF assms(4) ev assms(3) assms(1) bt] reading_Inr ret_def)
  then show ?thesis
    by (simp add: api_upload_def connected_def)
qed

theorem bulk_upload_acknowledged_witness:
  "db_reachable (services_up 0) cold_start \<and>
   fst (api_upload (services_up 0)
          (JObj [(''type'', JStr ''teams''), (''event'', JStr ''timeSync''),
                 (''data'', JArr [JStr ''Alpha'', JStr ''Beta''])])
          cold_start) =
     \<lparr>status = 200,
      body = JObj [(''message'', JStr ''Successfully processed teams upload''),
                   (''count'', JNum 2)]\<rparr>"
  using bulk_upload_acknowledged
    [of "JObj [(''type'', JStr ''teams''), (''event'', JStr ''timeSync''),
               (''data'', JArr [JStr ''Alpha'', JStr ''Beta''])]"
        "''teams''" "[JStr ''Alpha'', JStr ''Beta'']" "services_up 0" cold_start]
  by (simp add: db_reachable_def services_up_def)

text \<open>
  C5. A submission whose document has been created, and where the first broadcast, the
  query for the team or the second broadcast then fails: the response is the generic 500
  error, and the store still holds the new document after the request, as the create call
  stored it.
\<close>

theorem record_kept_when_later_step_fails:
  assumes "submission req_body props team evaluator rts fb"
    and "db_reachable sv w"
    and "create_ok sv"
    and "\<not> (trigger_ok sv 0 \<and> find_ok sv \<and> trigger_ok sv 1)"
  shows "fst (api_upload sv req_body w) =
           \<lparr>status = 500, body = JObj [(''message'', JStr ''Internal server error'')]\<rparr> \<and>
         store (snd (api_upload sv req_body w)) =
           store w @ [\<lparr>eid = nextId w, teamName = Text team, evaluatorUSN = Text evaluator,
                        ratings = clone False rts, feedback = Text fb, submittedAt = now sv\<rparr>] \<and>
         store (snd (api_upload sv req_body w)) =
           store (snd (Evaluation_create sv (JStr team) (JStr evaluator) rts (JStr fb) (now sv)
                         (connected w)))"
  using assms(4)
  by (auto simp add: api_upload_def upload_try_submission [OF assms(1-3)] await_def
      pusher_trigger_def Evaluation_find_team_text ret_def connected_def message_response_def
      Evaluation_create_texts [OF assms(3)])

theorem record_kept_when_later_step_fails_witness:
  "submission (sample_submission (JObj [(''clarity'', JNum 4)]))
     (sample_data (JObj [(''clarity'', JNum 4)]))
     ''T1'' ''U1'' (JObj [(''clarity'', JNum 4)]) ''clear'' \<and>
   \<not> (trigger_ok ((services_up 5)\<lparr>find_ok := False\<rparr>) 0 \<and>
      find_ok ((services_up 5)\<lparr>find_ok := False\<rparr>) \<and>
      trigger_ok ((services_up 5)\<lparr>find_ok := False\<rparr>) 1) \<and>
   fst (api_upload ((services_up 5)\<lparr>find_ok := False\<rparr>)
          (sample_submission (JObj [(''clarity'', JNum 4)])) two_stored) =
     \<lparr>status = 500, body = JObj [(''message'', JStr ''Internal server error'')]\<rparr> \<and>
   store (snd (api_upload ((services_up 5)\<lparr>find_ok := False\<rparr>)
          (sample_submission (JObj [(''clarity'', JNum 4)])) two_stored)) =
     store two_stored @
     [\<lparr>eid = 2, teamName = Text ''T1'', evaluatorUSN = Text ''U1'',
       ratings = JObj [(''clarity'', JNum 4)], feedback = Text ''clear'', submittedAt = 5\<rparr>]"
  using record_kept_when_later_step_fails
    [of "sample_submission (JObj [(''clarity'', JNum 4)])"
        "sample_data (JObj [(''clarity'', JNum 4)])"
        "''T1''" "''U1''" "JObj [(''clarity'', JNum 4)]" "''clear''"
        "(services_up 5)\<lparr>find_ok := False\<rparr>" two_stored]
  by (simp add: submission_def sample_submission_def sample_data_def db_reachable_def
      services_up_def two_stored_def specialProperties_def)

text \<open>
  C9. A request with the event \<^verbatim>\<open>evaluationSubmitted\<close> whose data has no evaluation
  property: the response is the generic 500 error, the store and the published events are
  unchanged, and no create call is issued, whatever the collaborators do. When the
  connection step goes through, what is thrown is the TypeError of reading
  \<^verbatim>\<open>data.evaluation.ratings\<close>, and the world is the one the connection step left.
\<close>

theorem submission_without_evaluation_fails:
  assumes "get_prop req_body ''event'' = Inr (JStr ''evaluationSubmitted'')"
    and "get_prop req_body ''type'' = Inr ty"
    and "bulk_type ty = None"
    and "get_prop req_body ''data'' = Inr data"
    and "get_prop data ''evaluation'' = Inr JUndefined"
  shows "fst (api_upload sv req_body w) = message_response 500 ''Internal server error'' \<and>
         store (snd (api_upload sv req_body w)) = store w \<and>
         published (snd (api_upload sv req_body w)) = published w \<and>
         Create \<notin> set (drop (length (dbLog w)) (dbLog (snd (api_upload sv req_body w)))) \<and>
         (db_reachable sv w \<longrightarrow> upload_try sv req_body w = (Inl TypeError, connected w))"
proof (cases "db_reachable sv w")
  case True
  obtain team where t: "get_prop data ''team'' = Inr team"
    using get_prop_defined [OF assms(5)] by blast
  obtain evaluator where e: "get_prop data ''evaluator'' = Inr evaluator"
    using get_prop_defined [OF assms(5)] by blast
  have "evaluationSubmitted sv data (connected w) = (Inl TypeError, connected w)"
    by (simp add: evaluationSubmitted_def t e assms(5) reading_Inr reading_Inl)
  then have "upload_try sv req_body w = (Inl TypeError, connected w)"
    by (simp add: upload_try_dispatch [OF True assms(1) assms(4) assms(2) assms(3)]
        dispatch_submitted await_def)
  then show ?thesis
    by (simp add: api_upload_def connected_def)
next
  case False
  then show ?thesis
    by (simp add: api_upload_def upload_try_unreachable)
qed

theorem submission_without_evaluation_fails_witness:
  "db_reachable (services_up 0) cold_start \<and>
   upload_try (services_up 0)
     (JObj [(''event'', JStr ''evaluationSubmitted''),
            (''data'', JObj [(''team'', JStr ''T1''), (''evaluator'', JStr ''U1'')])])
     cold_start = (Inl TypeError, connected cold_start) \<and>
   fst (api_upload (services_up 0)
     (JObj [(''event'', JStr ''evaluationSubmitted''),
            (''data'', JObj [(''team'', JStr ''T1''), (''evaluator'', JStr ''U1'')])])
     cold_start) = message_response 500 ''Internal server error'' \<and>
   store (snd (api_upload (services_up 0)
     (JObj [(''event'', JStr ''evaluationSubmitted''),
            (''data'', JObj [(''team'', JStr ''T1''), (''evaluator'', JStr ''U1'')])])
     cold_start)) = store cold_start"
  using submission_without_evaluation_fails
    [of "JObj [(''event'', JStr ''evaluationSubmitted''),
            (''data'', JObj [(''team'', JStr ''T1''), (''evaluator'', JStr ''U1'')])]"
        JUndefined "JObj [(''team'', JStr ''T1''), (''evaluator'', JStr ''U1'')]"
        "services_up 0" cold_start]
  by (simp add: db_reachable_def services_up_def)

text \<open>
  C10. A request whose type is \<^verbatim>\<open>participants\<close> or \<^verbatim>\<open>teams\<close> and whose data is absent:
  the response is the generic 500 error, not the upload acknowledgment, whatever the
  collaborators do. When the connection step goes through, what is thrown is the TypeError
  of reading \<^verbatim>\<open>data.length\<close>.
\<close>

theorem bulk_upload_without_data_fails:
  assumes "get_prop req_body ''type'' = Inr (JStr ty)"
    and "ty = ''participants'' \<or> ty = ''teams''"
    and "get_prop req_body ''data'' = Inr JUndefined"
  shows "fst (api_upload sv req_body w) = message_response 500 ''Internal server error'' \<and>
         (db_reachable sv w \<longrightarrow> upload_try sv req_body w = (Inl TypeError, connected w))"
proof (cases "db_reachable sv w")
  case True
  obtain event where ev: "get_prop req_body ''event'' = Inr event"
    using get_prop_defined [OF assms(1)] by blast
  have bt: "bulk_type (JStr ty) = Some ty"
    using assms(2) by auto
  have "upload_try sv req_body w = (Inl TypeError, connected w)"
    by (simp add: upload_try_bulk [OF True ev assms(3) assms(1) bt] reading_Inl)
  then show ?thesis
    by (simp add: api_upload_def)
next
  case False
  then show ?thesis
    by (simp add: api_upload_def upload_try_unreachable)
qed

theorem bulk_upload_without_data_fails_witness:
  "db_reachable (services_up 0) cold_start \<and>
   upload_try (services_up 0) (JObj [(''type'', JStr ''participants'')]) cold_start =
     (Inl TypeError, connected cold_start) \<and>
   fst (api_upload (services_up 0) (JObj [(''type'', JStr ''participants'')]) cold_start) =
     message_response 500 ''Internal server error''"
  using bulk_upload_without_data_fails
    [of "JObj [(''type'', JStr ''participants'')]" "''participants''" "services_up 0" cold_start]
  by (simp add: db_reachable_def services_up_def)

section \<open>The feedbacks handler\<close>

text \<open>
  With the connection step and the query through, and no stored team name among the
  inherited property names, GET /feedbacks answers 200 with the grouping.
\<close>

lemma feedbacks_grouped:
  assumes "db_reachable sv w" and "find_ok sv"
    and "\<forall>r \<in> set (store w). property_key (teamName r) \<notin> set object_prototype_keys"
  shows "fst (feedbacks sv w) = (200, Grouped (grouped (store w)))"
proof -
  have c: "store (connected w) = store w"
    by (simp add: connected_def)
  have "group_feedbacks Map.empty (store w) = Inr (grouped (store w))"
    by (simp add: group_feedbacks_from [OF assms(3)])
  then show ?thesis
    using assms(2)
    by (simp add: feedbacks_def feedbacks_try_def connectDB_reachable [OF assms(1)]
        Evaluation_find_all_def await_def Let_def c reading_Inr ret_def)
qed

text \<open>With two teams in the store: two keys, each with its entries in insertion order.\<close>

lemma feedbacks_grouped_two_teams:
  "fst (feedbacks (services_up 9)
     (cold_start\<lparr>store :=
        [\<lparr>eid = 0, teamName = Text ''T1'', evaluatorUSN = Text ''U1'', ratings = JNull,
          feedback = Text ''a'', submittedAt = 1\<rparr>,
         \<lparr>eid = 1, teamName = Text ''T2'', evaluatorUSN = Text ''U1'', ratings = JNull,
          feedback = Text ''b'', submittedAt = 2\<rparr>,
         \<lparr>eid = 2, teamName = Text ''T1'', evaluatorUSN = Text ''U2'', ratings = JNull,
          feedback = Text ''c'', submittedAt = 3\<rparr>]\<rparr>)) =
     (200, Grouped
       [''T1'' \<mapsto>
          [JObj [(''evaluatorUSN'', JStr ''U1''), (''ratings'', JNull), (''feedback'', JStr ''a''),
                 (''submittedAt'', JDate 1)],
           JObj [(''evaluatorUSN'', JStr ''U2''), (''ratings'', JNull), (''feedback'', JStr ''c''),
                 (''submittedAt'', JDate 3)]],
        ''T2'' \<mapsto>
          [JObj [(''evaluatorUSN'', JStr ''U1''), (''ratings'', JNull), (''feedback'', JStr ''b''),
                 (''submittedAt'', JDate 2)]]])"
proof -
  have "grouped
        [\<lparr>eid = 0, teamName = Text ''T1'', evaluatorUSN = Text ''U1'', ratings = JNull,
          feedback = Text ''a'', submittedAt = 1\<rparr>,
         \<lparr>eid = 1, teamName = Text ''T2'', evaluatorUSN = Text ''U1'', ratings = JNull,
          feedback = Text ''b'', submittedAt = 2\<rparr>,
         \<lparr>eid = 2, teamName = Text ''T1'', evaluatorUSN = Text ''U2'', ratings = JNull,
          feedback = Text ''c'', submittedAt = 3\<rparr>] =
       [''T1'' \<mapsto>
          [JObj [(''evaluatorUSN'', JStr ''U1''), (''ratings'', JNull), (''feedback'', JStr ''a''),
                 (''submittedAt'', JDate 1)],
           JObj [(''evaluatorUSN'', JStr ''U2''), (''ratings'', JNull), (''feedback'', JStr ''c''),
                 (''submittedAt'', JDate 3)]],
        ''T2'' \<mapsto>
          [JObj [(''evaluatorUSN'', JStr ''U1''), (''ratings'', JNull), (''feedback'', JStr ''b''),
                 (''submittedAt'', JDate 2)]]]"
    by (rule ext) (simp add: grouped_def feedback_entry_def)
  then show ?thesis
    using feedbacks_grouped [of "services_up 9" "cold_start\<lparr>store :=
        [\<lparr>eid = 0, teamName = Text ''T1'', evaluatorUSN = Text ''U1'', ratings = JNull,
          feedback = Text ''a'', submittedAt = 1\<rparr>,
         \<lparr>eid = 1, teamName = Text ''T2'', evaluatorUSN = Text ''U1'', ratings = JNull,
          feedback = Text ''b'', submittedAt = 2\<rparr>,
         \<lparr>eid = 2, teamName = Text ''T1'', evaluatorUSN = Text ''U2'', ratings = JNull,
          feedback = Text ''c'', submittedAt = 3\<rparr>]\<rparr>"]
    by (simp add: db_reachable_def services_up_def cold_start_def object_prototype_keys_def)
qed

text \<open>
  C6. The grouping is not what every GET /feedbacks request gets. A team may be named
  \<^verbatim>\<open>constructor\<close>: the upload handler stores an evaluation for it. From then on the
  reducer finds the inherited \<^verbatim>\<open>constructor\<close> of the accumulator under that key, does not
  initialise a list, fails to push, and the request is answered with the generic 500
  error instead of an object with the key \<^verbatim>\<open>constructor\<close>.
\<close>

theorem feedbacks_fails_on_inherited_team_name:
  "store (snd (api_upload (services_up 0)
      (JObj [(''event'', JStr ''evaluationSubmitted''),
             (''data'', JObj [(''team'', JStr ''constructor''), (''evaluator'', JStr ''U1''),
                (''evaluation'', JObj [(''ratings'', JObj [(''clarity'', JNum 4)]),
                                        (''feedback'', JStr ''clear'')])])])
      cold_start)) =
     [\<lparr>eid = 0, teamName = Text ''constructor'', evaluatorUSN = Text ''U1'',
       ratings = JObj [(''clarity'', JNum 4)], feedback = Text ''clear'', submittedAt = 0\<rparr>] \<and>
   fst (feedbacks (services_up 1)
      (snd (api_upload (services_up 0)
        (JObj [(''event'', JStr ''evaluationSubmitted''),
               (''data'', JObj [(''team'', JStr ''constructor''), (''evaluator'', JStr ''U1''),
                  (''evaluation'', JObj [(''ratings'', JObj [(''clarity'', JNum 4)]),
                                          (''feedback'', JStr ''clear'')])])])
        cold_start))) = (500, Message ''Internal server error'')"
proof -
  have sub: "submission
      (JObj [(''event'', JStr ''evaluationSubmitted''),
             (''data'', JObj [(''team'', JStr ''constructor''), (''evaluator'', JStr ''U1''),
                (''evaluation'', JObj [(''ratings'', JObj [(''clarity'', JNum 4)]),
                                        (''feedback'', JStr ''clear'')])])])
      [(''team'', JStr ''constructor''), (''evaluator'', JStr ''U1''),
       (''evaluation'', JObj [(''ratings'', JObj [(''clarity'', JNum 4)]),
                               (''feedback'', JStr ''clear'')])]
      ''constructor'' ''U1'' (JObj [(''clarity'', JNum 4)]) ''clear''"
    by (simp add: submission_def)
  have up: "db_reachable (services_up 0) cold_start" "create_ok (services_up 0)"
    by (simp_all add: db_reachable_def services_up_def)
  show ?thesis
    unfolding api_upload_def upload_try_submission [OF sub up]
    by (simp add: await_def pusher_trigger_def Evaluation_find_team_text ret_def connected_def
        services_up_def cold_start_def feedbacks_def feedbacks_try_def connectDB_def
        Evaluation_find_all_def Let_def reading_def group_step_def object_prototype_keys_def
        specialProperties_def)
qed

end
